theory Spec2Isabelle
  imports Main
begin

section \<open>JavaScript values\<close>

text \<open>
  The values that travel through the extension: what \<^verbatim>\<open>JSON.parse\<close> produces, what
  \<^verbatim>\<open>chrome.storage\<close> holds, and \<^verbatim>\<open>undefined\<close> for an absent property. Numbers are
  modelled as integers (beats per minute and millisecond timestamps).
\<close>

datatype jsval =
    JUndefined
  | JNull
  | JBool bool
  | JNum int
  | JStr string
  | JArr "jsval list"
  | JObj "(string \<times> jsval) list"

text \<open>JavaScript truthiness: the falsy values are undefined, null, false, 0 and the empty string.\<close>

fun truthy :: "jsval \<Rightarrow> bool" where
  "truthy JUndefined = False"
| "truthy JNull = False"
| "truthy (JBool b) = b"
| "truthy (JNum n) = (n \<noteq> 0)"
| "truthy (JStr s) = (s \<noteq> [])"
| "truthy (JArr xs) = True"
| "truthy (JObj kvs) = True"

text \<open>The operator \<^verbatim>\<open>a || b\<close>.\<close>

definition js_or :: "jsval \<Rightarrow> jsval \<Rightarrow> jsval" where
  "js_or a b = (if truthy a then a else b)"

text \<open>Reading an own property of a plain object: absent keys read as undefined.\<close>

definition get_prop :: "(string \<times> jsval) list \<Rightarrow> string \<Rightarrow> jsval" where
  "get_prop kvs k = (case map_of kvs k of None \<Rightarrow> JUndefined | Some v \<Rightarrow> v)"


section \<open>Settings and the visibility decision (PulseOverlay.shouldShow)\<close>

text \<open>
  The fields of the settings object that the modelled code reads. \<^verbatim>\<open>siteOverrides\<close> is a
  plain object from hostname to value, kept as its list of own properties.
\<close>

record settings =
  enabled :: bool
  serverUrl :: string
  siteOverrides :: "(string \<times> jsval) list"

text \<open>
  \<^verbatim>\<open>shouldShow()\<close> with \<^verbatim>\<open>window.location.hostname\<close> as a parameter. The two strict
  comparisons come first, in the order of the source; everything else follows the global
  switch.
\<close>

definition shouldShow :: "settings \<Rightarrow> string \<Rightarrow> bool" where
  "shouldShow st hostname =
     (let override = get_prop (siteOverrides st) hostname in
      if override = JBool True then True
      else if override = JBool False then False
      else enabled st)"


section \<open>The rolling-window graph (graph.js)\<close>

record point =
  bpm :: int
  timestamp :: int

record PulseGraph =
  duration :: int
  points :: "point list"
  minBpm :: int
  maxBpm :: int

text \<open>The constructor: an empty buffer and the initial axis bounds 40 and 200.\<close>

definition new_PulseGraph :: "int \<Rightarrow> PulseGraph" where
  "new_PulseGraph d = \<lparr>duration = d, points = [], minBpm = 40, maxBpm = 200\<rparr>"

text \<open>
  \<^verbatim>\<open>addPoint(bpm, timestamp)\<close>; the first argument is the reading of \<^verbatim>\<open>Date.now()\<close>.
  The timestamp may be missing, and \<^verbatim>\<open>timestamp || now\<close> also replaces a timestamp of 0.
  The bounds are recomputed only when the filtered buffer is not empty; \<^verbatim>\<open>Math.min(...bpms)\<close>
  and \<^verbatim>\<open>Math.max(...bpms)\<close> are folds over the clamped values. Drawing is not modelled.
\<close>

definition addPoint :: "int \<Rightarrow> int \<Rightarrow> int option \<Rightarrow> PulseGraph \<Rightarrow> PulseGraph" where
  "addPoint now b ts g =
     (let t = (case ts of None \<Rightarrow> now | Some t' \<Rightarrow> if t' = 0 then now else t');
          pushed = points g @ [\<lparr>bpm = b, timestamp = t\<rparr>];
          cutoff = now - duration g * 1000;
          kept = filter (\<lambda>p. timestamp p > cutoff) pushed
      in case map (\<lambda>p. max 40 (min 220 (bpm p))) kept of
           [] \<Rightarrow> g\<lparr>points := kept\<rparr>
         | v # vs \<Rightarrow>
             g\<lparr>points := kept,
               minBpm := max 40 (fold min vs v - 10),
               maxBpm := min 220 (fold max vs v + 10)\<rparr>)"

text \<open>A sequence of inserts, each with its own clock reading, value and timestamp.\<close>

fun addPoints :: "(int \<times> int \<times> int option) list \<Rightarrow> PulseGraph \<Rightarrow> PulseGraph" where
  "addPoints [] g = g"
| "addPoints ((now, b, ts) # rest) g = addPoints rest (addPoint now b ts g)"

text \<open>Clamping to the physiological range, used to state the bounds.\<close>

definition clamp_bpm :: "int \<Rightarrow> int" where
  "clamp_bpm x = max 40 (min 220 x)"


definition bounds_ok :: "PulseGraph \<Rightarrow> bool" where
  "bounds_ok g = (40 \<le> minBpm g \<and> minBpm g \<le> 220 \<and> 40 \<le> maxBpm g \<and> maxBpm g \<le> 220)"


section \<open>The shared state store (chrome.storage.local and state.js, getState)\<close>

text \<open>
  The store maps keys to values. \<^verbatim>\<open>set(items)\<close> overwrites the given keys and leaves the
  others; \<^verbatim>\<open>get(keys)\<close> returns an object with the keys that are present.
\<close>

type_synonym storage = "string \<rightharpoonup> jsval"

definition storage_set :: "(string \<times> jsval) list \<Rightarrow> storage \<Rightarrow> storage" where
  "storage_set items st = st ++ map_of items"

definition storage_get :: "string list \<Rightarrow> storage \<Rightarrow> (string \<times> jsval) list" where
  "storage_get keys st = List.map_filter (\<lambda>k. map_option (Pair k) (st k)) keys"

text \<open>\<^verbatim>\<open>PulseState.getState()\<close>: the three keys are read and each is defaulted with \<^verbatim>\<open>||\<close>.\<close>

definition getState :: "storage \<Rightarrow> (string \<times> jsval) list" where
  "getState st =
     (let result = storage_get [''connectionState'', ''connectedDevice'', ''currentBpm''] st in
      [(''connectionState'', js_or (get_prop result ''connectionState'') (JStr ''disconnected'')),
       (''connectedDevice'', js_or (get_prop result ''connectedDevice'') JNull),
       (''currentBpm'', js_or (get_prop result ''currentBpm'') JNull)])"


section \<open>The overlay display (PulseOverlay)\<close>

text \<open>
  The text of the value element is either the placeholder \<^verbatim>\<open>--\<close> or a number. The overlay
  keeps the last value and the connection phase it was told; \<^verbatim>\<open>container\<close> says whether the
  DOM node is mounted. Samples are typed as in the protocol: a numeric value and an optional
  timestamp; \<^verbatim>\<open>null\<close> is \<open>None\<close>.
\<close>

datatype bpm_text = Placeholder | Shown int

record PulseOverlay =
  container :: bool
  graph :: "PulseGraph option"
  ov_currentBpm :: "int option"
  ov_connectionState :: string
  statusClass :: string
  bpmValue :: bpm_text
  beating :: bool
  disconnectedClass :: bool

text \<open>The constructor: nothing mounted, no value, phase \<^verbatim>\<open>disconnected\<close>.\<close>

definition new_PulseOverlay :: PulseOverlay where
  "new_PulseOverlay =
     \<lparr>container = False, graph = None, ov_currentBpm = None,
      ov_connectionState = ''disconnected'', statusClass = ''disconnected'',
      bpmValue = Placeholder, beating = False, disconnectedClass = False\<rparr>"

text \<open>
  \<^verbatim>\<open>createOverlay()\<close>: mounts the node with the status class \<^verbatim>\<open>status-disconnected\<close> and the
  text \<^verbatim>\<open>--\<close>, and creates the graph in graph mode.
\<close>

definition createOverlay :: "string \<Rightarrow> int \<Rightarrow> PulseOverlay \<Rightarrow> PulseOverlay" where
  "createOverlay displayMode graphDuration ov =
     ov\<lparr>container := True, statusClass := ''disconnected'', bpmValue := Placeholder,
        beating := False, disconnectedClass := False,
        graph := (if displayMode = ''graph'' then Some (new_PulseGraph graphDuration) else None)\<rparr>"

definition updateDisplay :: "PulseOverlay \<Rightarrow> PulseOverlay" where
  "updateDisplay ov =
     (if \<not> container ov then ov
      else
        let ov1 = ov\<lparr>statusClass := ov_connectionState ov\<rparr> in
        case (ov_currentBpm ov1, ov_connectionState ov1 = ''connected'') of
          (Some b, True) \<Rightarrow>
            ov1\<lparr>bpmValue := Shown b, beating := True, disconnectedClass := False\<rparr>
        | _ \<Rightarrow> ov1\<lparr>bpmValue := Placeholder, beating := False, disconnectedClass := True\<rparr>)"

text \<open>The two listeners installed by \<^verbatim>\<open>setupListeners()\<close>.\<close>

definition onStateChange :: "string \<Rightarrow> PulseOverlay \<Rightarrow> PulseOverlay" where
  "onStateChange state ov = updateDisplay (ov\<lparr>ov_connectionState := state\<rparr>)"

definition onHeartRate :: "int \<Rightarrow> int \<Rightarrow> int option \<Rightarrow> PulseOverlay \<Rightarrow> PulseOverlay" where
  "onHeartRate now b ts ov =
     (let ov1 = updateDisplay (ov\<lparr>ov_currentBpm := Some b\<rparr>) in
      case graph ov1 of
        None \<Rightarrow> ov1
      | Some g \<Rightarrow> ov1\<lparr>graph := Some (addPoint now b ts g)\<rparr>)"

datatype overlay_event = StateChange string | HeartRate int int "int option"

fun overlay_step :: "overlay_event \<Rightarrow> PulseOverlay \<Rightarrow> PulseOverlay" where
  "overlay_step (StateChange state) ov = onStateChange state ov"
| "overlay_step (HeartRate now b ts) ov = onHeartRate now b ts ov"

fun overlay_run :: "overlay_event list \<Rightarrow> PulseOverlay \<Rightarrow> PulseOverlay" where
  "overlay_run [] ov = ov"
| "overlay_run (e # es) ov = overlay_run es (overlay_step e ov)"

text \<open>A mounted overlay whose text is the placeholder unless its phase is \<^verbatim>\<open>connected\<close>.\<close>

definition placeholder_ok :: "PulseOverlay \<Rightarrow> bool" where
  "placeholder_ok ov =
     (container ov \<and> (ov_connectionState ov \<noteq> ''connected'' \<longrightarrow> bpmValue ov = Placeholder))"


section \<open>The connection manager (background.js)\<close>

subsection \<open>State\<close>

text \<open>
  The browser owns the sockets: every \<^verbatim>\<open>new WebSocket\<close> adds one to the list \<open>sockets\<close>, and
  the variable \<^verbatim>\<open>ws\<close> holds the index of the socket it refers to, or \<open>None\<close> for \<^verbatim>\<open>null\<close>.
  Overwriting \<^verbatim>\<open>ws\<close> does not remove a socket from the list.
\<close>

datatype readyState = CONNECTING | OPEN | CLOSING | CLOSED

text \<open>
  An \<^verbatim>\<open>async\<close> function that has reached an \<^verbatim>\<open>await\<close> is a suspended task; other handlers
  run before it continues. The constructors name the function and the \<^verbatim>\<open>await\<close> it waits at.
\<close>

datatype task =
    Connect_shouldConnect
  | Connect_getSettings
  | Connect_setState settings
  | Connect_catch
  | Timer_shouldConnect
  | Settings_shouldConnect

text \<open>What the manager asks of its environment, in the order of the calls.\<close>

datatype effect =
    Broadcast "(string \<times> jsval) list"
  | ConsoleLog
  | ConsoleWarn
  | SetTimeout int
  | ClearTimeout
  | NewWebSocket string
  | CloseSocket nat

text \<open>
  The global variables of the service worker, the suspended tasks, the local store and the
  effects so far. \<open>reconnectTimer\<close> is \<open>Some d\<close> while a timeout armed with delay \<open>d\<close> is
  pending.
\<close>

record manager =
  ws :: "nat option"
  sockets :: "readyState list"
  isConnecting :: bool
  connectionState :: jsval
  currentBpm :: jsval
  reconnectDelay :: int
  reconnectTimer :: "int option"
  reconnectStartTime :: "int option"
  autoReconnectEnabled :: bool
  tasks :: "task list"
  local_store :: storage
  out :: "effect list"

definition RECONNECT_MAX_DELAY :: int where
  "RECONNECT_MAX_DELAY = 30000"

definition RECONNECT_TIMEOUT :: int where
  "RECONNECT_TIMEOUT = 60000"

text \<open>The state when the worker script has been loaded, before its last line runs.\<close>

definition init :: manager where
  "init =
     \<lparr>ws = None, sockets = [], isConnecting = False,
      connectionState = JStr ''disconnected'', currentBpm = JNull,
      reconnectDelay = 1000, reconnectTimer = None, reconnectStartTime = None,
      autoReconnectEnabled = True, tasks = [], local_store = Map.empty, out = []\<rparr>"

definition emit :: "effect \<Rightarrow> manager \<Rightarrow> manager" where
  "emit e s = s\<lparr>out := out s @ [e]\<rparr>"

definition readyState_of :: "manager \<Rightarrow> nat \<Rightarrow> readyState" where
  "readyState_of s k = (if k < length (sockets s) then sockets s ! k else CLOSED)"

subsection \<open>The functions\<close>

text \<open>
  \<^verbatim>\<open>setConnectionState(state, device = null)\<close>: the variable is assigned, the two keys are
  written to the local store and the status message is broadcast. The default parameter
  replaces an undefined device by null. The function assigns the variable and issues the
  write before its first await; the write and the broadcast touch no variable of the worker,
  so both are recorded at the call, in their order.
\<close>

definition setConnectionState :: "jsval \<Rightarrow> jsval \<Rightarrow> manager \<Rightarrow> manager" where
  "setConnectionState state device0 s =
     (let device = (if device0 = JUndefined then JNull else device0) in
      emit (Broadcast [(''type'', JStr ''status''), (''status'', state), (''device'', device)])
        (s\<lparr>connectionState := state,
           local_store :=
             storage_set [(''connectionState'', state), (''connectedDevice'', device)]
               (local_store s)\<rparr>))"

text \<open>
  \<^verbatim>\<open>shouldBeConnected()\<close> on the settings that the storage read returns. The overrides are
  always an object here (the read supplies the default), so \<^verbatim>\<open>|| {}\<close> changes nothing.
\<close>

definition shouldBeConnected :: "settings \<Rightarrow> bool" where
  "shouldBeConnected st =
     (if enabled st then True
      else list_ex (\<lambda>v. v = JBool True) (map snd (siteOverrides st)))"

text \<open>
  \<^verbatim>\<open>connect()\<close> up to its first \<^verbatim>\<open>await\<close>: the guard and the assignment of the flag run
  in one piece; the rest of the function is the suspended task.
\<close>

definition connect :: "manager \<Rightarrow> manager" where
  "connect s =
     (if isConnecting s
         \<or> (case ws s of
               None \<Rightarrow> False
             | Some k \<Rightarrow> readyState_of s k = OPEN \<or> readyState_of s k = CONNECTING)
      then s
      else s\<lparr>isConnecting := True, tasks := tasks s @ [Connect_shouldConnect]\<rparr>)"

text \<open>\<^verbatim>\<open>scheduleReconnect()\<close>; the first argument is the reading of \<^verbatim>\<open>Date.now()\<close>.\<close>

definition scheduleReconnect :: "int \<Rightarrow> manager \<Rightarrow> manager" where
  "scheduleReconnect now s =
     (if \<not> autoReconnectEnabled s then s
      else
        let start = (case reconnectStartTime s of None \<Rightarrow> now | Some t \<Rightarrow> t);
            s1 = s\<lparr>reconnectStartTime := Some start\<rparr>
        in if now - start > RECONNECT_TIMEOUT
           then (emit ConsoleLog s1)\<lparr>autoReconnectEnabled := False, reconnectStartTime := None\<rparr>
           else
             let s2 = (if reconnectTimer s1 \<noteq> None then emit ClearTimeout s1 else s1)
             in (emit (SetTimeout (reconnectDelay s2)) s2)
                  \<lparr>reconnectTimer := Some (reconnectDelay s2)\<rparr>)"

text \<open>
  \<^verbatim>\<open>disconnect()\<close>. Closing a socket that is connecting or open moves it to \<^verbatim>\<open>CLOSING\<close>;
  its close event comes later.
\<close>

definition close_socket :: "nat \<Rightarrow> manager \<Rightarrow> manager" where
  "close_socket k s =
     emit (CloseSocket k)
       (if readyState_of s k = CONNECTING \<or> readyState_of s k = OPEN
        then s\<lparr>sockets := (sockets s)[k := CLOSING]\<rparr> else s)"

definition disconnect :: "manager \<Rightarrow> manager" where
  "disconnect s =
     (let s1 = (if reconnectTimer s \<noteq> None
                then (emit ClearTimeout s)\<lparr>reconnectTimer := None\<rparr> else s);
          s2 = (case ws s1 of None \<Rightarrow> s1 | Some k \<Rightarrow> (close_socket k s1)\<lparr>ws := None\<rparr>)
      in s2\<lparr>isConnecting := False, connectionState := JStr ''disconnected'',
             currentBpm := JNull\<rparr>)"

subsection \<open>Socket handlers\<close>

definition onopen :: "manager \<Rightarrow> manager" where
  "onopen s =
     setConnectionState (JStr ''connected'') JUndefined
       (emit ConsoleLog
          (s\<lparr>isConnecting := False, reconnectDelay := 1000, reconnectStartTime := None,
             autoReconnectEnabled := True\<rparr>))"

text \<open>
  Property access on a parsed message: reading a property of \<^verbatim>\<open>null\<close> throws, an object
  gives its property or undefined, every other value gives undefined.
\<close>

definition throws_on_access :: "jsval \<Rightarrow> bool" where
  "throws_on_access data = (data = JNull \<or> data = JUndefined)"

definition field :: "jsval \<Rightarrow> string \<Rightarrow> jsval" where
  "field data k = (case data of JObj kvs \<Rightarrow> get_prop kvs k | _ \<Rightarrow> JUndefined)"

text \<open>
  \<^verbatim>\<open>ws.onmessage\<close>. The argument is the outcome of \<^verbatim>\<open>JSON.parse(event.data)\<close>: \<open>None\<close> when
  it throws a syntax error. Every exception inside the \<^verbatim>\<open>try\<close> block ends in the warning.
\<close>

definition onmessage :: "jsval option \<Rightarrow> manager \<Rightarrow> manager" where
  "onmessage parsed s =
     (case parsed of
        None \<Rightarrow> emit ConsoleWarn s
      | Some data \<Rightarrow>
          if throws_on_access data then emit ConsoleWarn s
          else if truthy (field data ''status'')
          then setConnectionState (field data ''status'') (field data ''device'') s
          else if field data ''bpm'' \<noteq> JUndefined
          then emit (Broadcast [(''type'', JStr ''hr''), (''bpm'', field data ''bpm''),
                                (''timestamp'', field data ''timestamp'')])
                 (s\<lparr>currentBpm := field data ''bpm'',
                    local_store := storage_set [(''currentBpm'', field data ''bpm'')] (local_store s)\<rparr>)
          else s)"

definition onclose :: "int \<Rightarrow> manager \<Rightarrow> manager" where
  "onclose now s =
     scheduleReconnect now
       (setConnectionState (JStr ''disconnected'') JUndefined
          (s\<lparr>ws := None, isConnecting := False\<rparr>))"

definition onerror :: "manager \<Rightarrow> manager" where
  "onerror s = emit ConsoleWarn s"

subsection \<open>Continuations of the asynchronous functions\<close>

text \<open>
  \<^verbatim>\<open>handleSettingsChange\<close> after its \<^verbatim>\<open>await shouldBeConnected()\<close>; the argument is the
  settings that the read returned.
\<close>

definition handleSettingsChange :: "settings \<Rightarrow> manager \<Rightarrow> manager" where
  "handleSettingsChange st s =
     (let shouldConnect = shouldBeConnected st in
      if \<not> shouldConnect \<and> connectionState s \<noteq> JStr ''disconnected''
      then emit (Broadcast [(''type'', JStr ''settingsChanged'')]) (disconnect s)
      else if shouldConnect \<and> connectionState s = JStr ''disconnected''
      then connect (s\<lparr>reconnectDelay := 1000, reconnectStartTime := None,
                      autoReconnectEnabled := True\<rparr>)
      else emit (Broadcast [(''type'', JStr ''settingsChanged'')]) s)"

text \<open>
  One suspended task continues up to its next \<^verbatim>\<open>await\<close> or its end. \<open>st\<close> is the result of
  the storage read the task waited for, \<open>ok\<close> says whether \<^verbatim>\<open>new WebSocket(url)\<close> returns
  rather than throws.
\<close>

fun continue :: "int \<Rightarrow> task \<Rightarrow> settings \<Rightarrow> bool \<Rightarrow> manager \<Rightarrow> manager" where
  "continue now Connect_shouldConnect st ok s =
     (if \<not> shouldBeConnected st then s\<lparr>isConnecting := False\<rparr>
      else s\<lparr>tasks := tasks s @ [Connect_getSettings]\<rparr>)"
| "continue now Connect_getSettings st ok s =
     (let s1 = setConnectionState (JStr ''connecting'') JUndefined s
      in s1\<lparr>tasks := tasks s1 @ [Connect_setState st]\<rparr>)"
| "continue now (Connect_setState cfg) st ok s =
     (if ok
      then (emit (NewWebSocket (serverUrl cfg)) s)
             \<lparr>ws := Some (length (sockets s)), sockets := sockets s @ [CONNECTING]\<rparr>
      else
        let s1 = setConnectionState (JStr ''disconnected'') JUndefined (s\<lparr>isConnecting := False\<rparr>)
        in s1\<lparr>tasks := tasks s1 @ [Connect_catch]\<rparr>)"
| "continue now Connect_catch st ok s = scheduleReconnect now s"
| "continue now Timer_shouldConnect st ok s =
     (if shouldBeConnected st \<and> autoReconnectEnabled s
      then (connect s)\<lparr>reconnectDelay := min (reconnectDelay s * 2) RECONNECT_MAX_DELAY\<rparr>
      else s)"
| "continue now Settings_shouldConnect st ok s = handleSettingsChange st s"

subsection \<open>Events\<close>

text \<open>
  What can happen to the worker: the top-level \<^verbatim>\<open>connect()\<close> (also called on install), the
  keep-alive alarm, the two runtime messages, the reconnect timeout, the continuation of the
  i-th suspended task, and the events of socket k.
\<close>

datatype event =
    CallConnect
  | KeepAlive
  | MsgReconnect
  | MsgSettingsChanged
  | TimerFires
  | Resume nat settings bool
  | WsOpen nat
  | WsMessage nat "jsval option"
  | WsError nat
  | WsClose nat

text \<open>
  One event at clock reading \<open>now\<close>. The browser raises \<^verbatim>\<open>open\<close> only on a connecting socket,
  \<^verbatim>\<open>message\<close> only on an open one and \<^verbatim>\<open>close\<close> only on one that is not closed yet, and it
  sets the ready state before it calls the handler; the timeout fires only while it is
  pending. An event that cannot happen in the state leaves it as it is.
\<close>

fun step :: "int \<times> event \<Rightarrow> manager \<Rightarrow> manager" where
  "step (now, CallConnect) s = connect s"
| "step (now, KeepAlive) s =
     (if autoReconnectEnabled s
         \<and> (case ws s of None \<Rightarrow> True | Some k \<Rightarrow> readyState_of s k \<noteq> OPEN)
      then connect s else s)"
| "step (now, MsgReconnect) s =
     connect ((disconnect s)\<lparr>reconnectDelay := 1000, reconnectStartTime := None,
                               autoReconnectEnabled := True\<rparr>)"
| "step (now, MsgSettingsChanged) s = s\<lparr>tasks := tasks s @ [Settings_shouldConnect]\<rparr>"
| "step (now, TimerFires) s =
     (if reconnectTimer s = None then s
      else s\<lparr>reconnectTimer := None, tasks := tasks s @ [Timer_shouldConnect]\<rparr>)"
| "step (now, Resume i st ok) s =
     (if i < length (tasks s)
      then continue now (tasks s ! i) st ok (s\<lparr>tasks := take i (tasks s) @ drop (Suc i) (tasks s)\<rparr>)
      else s)"
| "step (now, WsOpen k) s =
     (if readyState_of s k = CONNECTING
      then onopen (s\<lparr>sockets := (sockets s)[k := OPEN]\<rparr>) else s)"
| "step (now, WsMessage k parsed) s =
     (if readyState_of s k = OPEN then onmessage parsed s else s)"
| "step (now, WsError k) s =
     (if k < length (sockets s) then onerror s else s)"
| "step (now, WsClose k) s =
     (if k < length (sockets s) \<and> readyState_of s k \<noteq> CLOSED
      then onclose now (s\<lparr>sockets := (sockets s)[k := CLOSED]\<rparr>) else s)"

fun run :: "(int \<times> event) list \<Rightarrow> manager \<Rightarrow> manager" where
  "run [] s = s"
| "run (e # es) s = run es (step e s)"

subsection \<open>Measures and inputs used in the statements\<close>

text \<open>The sockets that are connecting or open, and the connect calls that are under way.\<close>

definition live_sockets :: "manager \<Rightarrow> nat" where
  "live_sockets s = length (filter (\<lambda>r. r = CONNECTING \<or> r = OPEN) (sockets s))"

fun connect_task :: "task \<Rightarrow> bool" where
  "connect_task Connect_shouldConnect = True"
| "connect_task Connect_getSettings = True"
| "connect_task (Connect_setState cfg) = True"
| "connect_task Connect_catch = False"
| "connect_task Timer_shouldConnect = False"
| "connect_task Settings_shouldConnect = False"

definition pending_connects :: "manager \<Rightarrow> nat" where
  "pending_connects s = length (filter connect_task (tasks s))"


text \<open>The delays of the timeouts armed so far, in order.\<close>

fun timeouts :: "effect list \<Rightarrow> int list" where
  "timeouts [] = []"
| "timeouts (SetTimeout d # es) = d # timeouts es"
| "timeouts (e # es) = timeouts es"

text \<open>The delay sequence of the specification: 1000 doubled n times, capped at 30000.\<close>

definition backoff_delay :: "nat \<Rightarrow> int" where
  "backoff_delay n = min (1000 * 2 ^ n) 30000"

text \<open>
  One failed cycle of the reconnect loop: the timeout fires at the first time, its callback
  calls \<^verbatim>\<open>connect()\<close>, which runs through its three awaits and creates a socket, and that
  socket closes at the second time without having opened.
\<close>

definition failed_cycle :: "settings \<Rightarrow> int \<times> int \<Rightarrow> manager \<Rightarrow> manager" where
  "failed_cycle st tt s =
     run [(fst tt, TimerFires), (fst tt, Resume 0 st True), (fst tt, Resume 0 st True),
          (fst tt, Resume 0 st True), (fst tt, Resume 0 st True),
          (snd tt, WsClose (length (sockets s)))] s"

fun failed_cycles :: "settings \<Rightarrow> (int \<times> int) list \<Rightarrow> manager \<Rightarrow> manager" where
  "failed_cycles st [] s = s"
| "failed_cycles st (tt # tts) s = failed_cycles st tts (failed_cycle st tt s)"

text \<open>
  The manager between two cycles of a failure episode that started at \<open>t0\<close>: no socket, no
  suspended task, and the timeout armed with the current delay.
\<close>

definition retrying :: "int \<Rightarrow> manager \<Rightarrow> bool" where
  "retrying t0 s =
     (ws s = None \<and> \<not> isConnecting s \<and> tasks s = [] \<and> autoReconnectEnabled s
      \<and> reconnectTimer s = Some (reconnectDelay s) \<and> reconnectStartTime s = Some t0)"




text \<open>
  A malformed message in the sense of the specification: the text is not valid JSON, or the
  parsed value has neither a \<^verbatim>\<open>bpm\<close> nor a \<^verbatim>\<open>status\<close> property.
\<close>

definition malformed :: "jsval option \<Rightarrow> bool" where
  "malformed parsed =
     (case parsed of
        None \<Rightarrow> True
      | Some data \<Rightarrow> field data ''bpm'' = JUndefined \<and> field data ''status'' = JUndefined)"

text \<open>The default settings, and runs of the worker from its start.\<close>

definition localhost :: settings where
  "localhost = \<lparr>enabled = True, serverUrl = ''ws://localhost:8765'', siteOverrides = []\<rparr>"

text \<open>The worker starts and its connection opens.\<close>

definition connected_run :: "(int \<times> event) list" where
  "connected_run =
     [(0, CallConnect), (1, Resume 0 localhost True), (2, Resume 0 localhost True),
      (3, Resume 0 localhost True), (4, WsOpen 0)]"

text \<open>
  The worker starts while a reconnect message is waiting: the top-level \<^verbatim>\<open>connect()\<close> is
  suspended at its first await when the message handler runs; then both calls continue.
\<close>

definition woken_by_reconnect_run :: "(int \<times> event) list" where
  "woken_by_reconnect_run =
     [(0, CallConnect), (1, MsgReconnect),
      (2, Resume 0 localhost True), (3, Resume 1 localhost True), (4, Resume 1 localhost True),
      (5, Resume 0 localhost True), (6, Resume 0 localhost True), (7, Resume 0 localhost True),
      (8, WsOpen 0), (9, WsOpen 1)]"




text \<open>
  A manual reconnect while connected. The old socket is closed by \<^verbatim>\<open>disconnect()\<close>; its close
  event arrives at 5001, before the new socket exists, and arms the timeout; the new socket
  opens at 5010.
\<close>

definition reconnect_while_connected_run :: "(int \<times> event) list" where
  "reconnect_while_connected_run =
     connected_run @
     [(5000, MsgReconnect), (5001, WsClose 0), (5002, Resume 0 localhost True),
      (5003, Resume 0 localhost True), (5004, Resume 0 localhost True), (5010, WsOpen 1)]"

text \<open>
  The same request, but the close event of the old socket arrives at 5005, after the new
  socket has been created; the timeout armed by it fires at 6005 and its connect attempt
  runs to an open socket.
\<close>

definition late_close_run :: "(int \<times> event) list" where
  "late_close_run =
     connected_run @
     [(5000, MsgReconnect), (5001, Resume 0 localhost True), (5002, Resume 0 localhost True),
      (5003, Resume 0 localhost True), (5005, WsClose 0), (5010, WsOpen 1),
      (6005, TimerFires), (6006, Resume 0 localhost True), (6007, Resume 0 localhost True),
      (6008, Resume 0 localhost True), (6009, Resume 0 localhost True), (6020, WsOpen 2)]"


section \<open>Visibility\<close>

text \<open>
  C4. For every settings snapshot and every origin, the overlay is shown when the override
  of the origin is exactly true, hidden when it is exactly false, and follows the global
  switch otherwise. With the global switch off and only a.com overridden to true, a.com is
  shown and b.com is not; with the global switch on and a.com overridden to false, a.com is
  hidden and b.com is shown.
\<close>

theorem shouldShow_resolution:
  "(get_prop (siteOverrides st) h = JBool True \<longrightarrow> shouldShow st h)
   \<and> (get_prop (siteOverrides st) h = JBool False \<longrightarrow> \<not> shouldShow st h)
   \<and> (get_prop (siteOverrides st) h \<noteq> JBool True \<and> get_prop (siteOverrides st) h \<noteq> JBool False
        \<longrightarrow> shouldShow st h = enabled st)
   \<and> shouldShow (st\<lparr>enabled := False, siteOverrides := [(''a.com'', JBool True)]\<rparr>) ''a.com''
   \<and> \<not> shouldShow (st\<lparr>enabled := False, siteOverrides := [(''a.com'', JBool True)]\<rparr>) ''b.com''
   \<and> \<not> shouldShow (st\<lparr>enabled := True, siteOverrides := [(''a.com'', JBool False)]\<rparr>) ''a.com''
   \<and> shouldShow (st\<lparr>enabled := True, siteOverrides := [(''a.com'', JBool False)]\<rparr>) ''b.com''"
  by (simp add: shouldShow_def get_prop_def)

theorem shouldShow_resolution_witness:
  "get_prop [(''a.com'', JBool True), (''c.org'', JBool False), (''d.net'', JNull)] ''a.com'' = JBool True
   \<and> shouldShow \<lparr>enabled = False, serverUrl = ''ws://localhost:8765'',
                  siteOverrides = [(''a.com'', JBool True), (''c.org'', JBool False), (''d.net'', JNull)]\<rparr> ''a.com''
   \<and> \<not> shouldShow \<lparr>enabled = True, serverUrl = ''ws://localhost:8765'',
                  siteOverrides = [(''a.com'', JBool True), (''c.org'', JBool False), (''d.net'', JNull)]\<rparr> ''c.org''
   \<and> \<not> shouldShow \<lparr>enabled = False, serverUrl = ''ws://localhost:8765'',
                  siteOverrides = [(''a.com'', JBool True), (''c.org'', JBool False), (''d.net'', JNull)]\<rparr> ''d.net''
   \<and> shouldShow \<lparr>enabled = True, serverUrl = ''ws://localhost:8765'',
                  siteOverrides = [(''a.com'', JBool True), (''c.org'', JBool False), (''d.net'', JNull)]\<rparr> ''e.io''"
  using shouldShow_resolution
          [of "\<lparr>enabled = False, serverUrl = ''ws://localhost:8765'',
                siteOverrides = [(''a.com'', JBool True), (''c.org'', JBool False), (''d.net'', JNull)]\<rparr>" "''a.com''"]
        shouldShow_resolution
          [of "\<lparr>enabled = True, serverUrl = ''ws://localhost:8765'',
                siteOverrides = [(''a.com'', JBool True), (''c.org'', JBool False), (''d.net'', JNull)]\<rparr>" "''c.org''"]
        shouldShow_resolution
          [of "\<lparr>enabled = False, serverUrl = ''ws://localhost:8765'',
                siteOverrides = [(''a.com'', JBool True), (''c.org'', JBool False), (''d.net'', JNull)]\<rparr>" "''d.net''"]
        shouldShow_resolution
          [of "\<lparr>enabled = True, serverUrl = ''ws://localhost:8765'',
                siteOverrides = [(''a.com'', JBool True), (''c.org'', JBool False), (''d.net'', JNull)]\<rparr>" "''e.io''"]
  by (simp add: get_prop_def)


section \<open>The rolling window\<close>

lemma addPoint_points:
  "points (addPoint now b ts g) =
     filter (\<lambda>p. timestamp p > now - duration g * 1000)
       (points g @ [\<lparr>bpm = b, timestamp = (case ts of None \<Rightarrow> now | Some t' \<Rightarrow> if t' = 0 then now else t')\<rparr>])"
  by (simp add: addPoint_def Let_def split: list.split)

lemma addPoint_duration: "duration (addPoint now b ts g) = duration g"
  by (simp add: addPoint_def Let_def split: list.split)

text \<open>
  C5. After every insert, every retained sample has a timestamp greater than the clock
  reading minus the window; the buffer is exactly the old buffer plus the new sample without
  the entries at or before the cutoff. Inserting points at 0, 10, ..., 100 seconds, each at its
  own time, with a window of 60 seconds leaves the points at 50, ..., 100 seconds.
\<close>

theorem addPoint_retains_window:
  "(\<forall>p \<in> set (points (addPoint now b ts g)). timestamp p > now - duration g * 1000)
   \<and> points (addPoint now b ts g) =
       filter (\<lambda>p. timestamp p > now - duration g * 1000)
         (points g @ [\<lparr>bpm = b, timestamp = (case ts of None \<Rightarrow> now | Some t' \<Rightarrow> if t' = 0 then now else t')\<rparr>])
   \<and> map timestamp (points (addPoints
        [(0, v, Some 0), (10000, v, Some 10000), (20000, v, Some 20000), (30000, v, Some 30000),
         (40000, v, Some 40000), (50000, v, Some 50000), (60000, v, Some 60000),
         (70000, v, Some 70000), (80000, v, Some 80000), (90000, v, Some 90000),
         (100000, v, Some 100000)] (new_PulseGraph 60)))
       = [50000, 60000, 70000, 80000, 90000, 100000]"
proof (intro conjI)
  show "\<forall>p \<in> set (points (addPoint now b ts g)). timestamp p > now - duration g * 1000"
    unfolding addPoint_points by simp
  show "points (addPoint now b ts g) =
       filter (\<lambda>p. timestamp p > now - duration g * 1000)
         (points g @ [\<lparr>bpm = b, timestamp = (case ts of None \<Rightarrow> now | Some t' \<Rightarrow> if t' = 0 then now else t')\<rparr>])"
    by (rule addPoint_points)
  show "map timestamp (points (addPoints
        [(0, v, Some 0), (10000, v, Some 10000), (20000, v, Some 20000), (30000, v, Some 30000),
         (40000, v, Some 40000), (50000, v, Some 50000), (60000, v, Some 60000),
         (70000, v, Some 70000), (80000, v, Some 80000), (90000, v, Some 90000),
         (100000, v, Some 100000)] (new_PulseGraph 60)))
       = [50000, 60000, 70000, 80000, 90000, 100000]"
    by (simp add: addPoint_points addPoint_duration new_PulseGraph_def)
qed

theorem addPoint_retains_window_witness:
  "points (addPoint 100000 72 (Some 100000)
             \<lparr>duration = 60,
              points = [\<lparr>bpm = 70, timestamp = 40000\<rparr>, \<lparr>bpm = 71, timestamp = 90000\<rparr>],
              minBpm = 60, maxBpm = 81\<rparr>)
     = [\<lparr>bpm = 71, timestamp = 90000\<rparr>, \<lparr>bpm = 72, timestamp = 100000\<rparr>]
   \<and> \<lparr>bpm = 71, timestamp = 90000\<rparr>
       \<in> set (points (addPoint 100000 72 (Some 100000)
             \<lparr>duration = 60,
              points = [\<lparr>bpm = 70, timestamp = 40000\<rparr>, \<lparr>bpm = 71, timestamp = 90000\<rparr>],
              minBpm = 60, maxBpm = 81\<rparr>))
   \<and> timestamp \<lparr>bpm = 71, timestamp = 90000\<rparr> > 100000 - 60 * 1000"
  using addPoint_retains_window
          [of 100000 72 "Some 100000"
              "\<lparr>duration = 60,
                points = [\<lparr>bpm = 70, timestamp = 40000\<rparr>, \<lparr>bpm = 71, timestamp = 90000\<rparr>],
                minBpm = 60, maxBpm = 81\<rparr>"]
  by simp


section \<open>The axis bounds\<close>

lemma addPoint_bounds_nonempty:
  assumes "points (addPoint now b ts g) \<noteq> []"
  shows "minBpm (addPoint now b ts g) =
           max 40 (Min (set (map (\<lambda>p. clamp_bpm (bpm p)) (points (addPoint now b ts g)))) - 10)"
    and "maxBpm (addPoint now b ts g) =
           min 220 (Max (set (map (\<lambda>p. clamp_bpm (bpm p)) (points (addPoint now b ts g)))) + 10)"
proof -
  let ?kept = "points (addPoint now b ts g)"
  obtain v vs where vs: "map (\<lambda>p. max 40 (min 220 (bpm p))) ?kept = v # vs"
    using assms by (cases "map (\<lambda>p. max 40 (min 220 (bpm p))) ?kept") auto
  have k: "?kept = filter (\<lambda>p. timestamp p > now - duration g * 1000)
       (points g @ [\<lparr>bpm = b, timestamp = (case ts of None \<Rightarrow> now | Some t' \<Rightarrow> if t' = 0 then now else t')\<rparr>])"
    by (rule addPoint_points)
  have m: "minBpm (addPoint now b ts g) = max 40 (fold min vs v - 10)"
    and M: "maxBpm (addPoint now b ts g) = min 220 (fold max vs v + 10)"
    using vs unfolding k by (simp_all add: addPoint_def Let_def)
  have s: "set (map (\<lambda>p. clamp_bpm (bpm p)) ?kept) = set (v # vs)"
    using vs by (simp add: clamp_bpm_def)
  show "minBpm (addPoint now b ts g) = max 40 (Min (set (map (\<lambda>p. clamp_bpm (bpm p)) ?kept)) - 10)"
    unfolding m s by (simp only: Min.set_eq_fold)
  show "maxBpm (addPoint now b ts g) = min 220 (Max (set (map (\<lambda>p. clamp_bpm (bpm p)) ?kept)) + 10)"
    unfolding M s by (simp only: Max.set_eq_fold)
qed

lemma addPoint_bounds_empty:
  "points (addPoint now b ts g) = [] \<Longrightarrow>
     minBpm (addPoint now b ts g) = minBpm g \<and> maxBpm (addPoint now b ts g) = maxBpm g"
  by (auto simp: addPoint_def Let_def split: list.splits if_splits)

lemma clamped_extremes:
  assumes "kept \<noteq> []"
  shows "40 \<le> Min (set (map (\<lambda>p. clamp_bpm (bpm p)) kept))"
    and "Min (set (map (\<lambda>p. clamp_bpm (bpm p)) kept)) \<le> 220"
    and "40 \<le> Max (set (map (\<lambda>p. clamp_bpm (bpm p)) kept))"
    and "Max (set (map (\<lambda>p. clamp_bpm (bpm p)) kept)) \<le> 220"
proof -
  let ?S = "set (map (\<lambda>p. clamp_bpm (bpm p)) kept)"
  have fin: "finite ?S" "?S \<noteq> {}" using assms by auto
  have rng: "\<forall>x \<in> ?S. 40 \<le> x \<and> x \<le> 220" by (auto simp: clamp_bpm_def)
  have "Min ?S \<in> ?S" "Max ?S \<in> ?S" using fin by (auto intro: Min_in Max_in)
  then show "40 \<le> Min ?S" "Min ?S \<le> 220" "40 \<le> Max ?S" "Max ?S \<le> 220"
    using rng by blast+
qed

lemma addPoint_bounds_ok: "bounds_ok g \<Longrightarrow> bounds_ok (addPoint now b ts g)"
proof (cases "points (addPoint now b ts g) = []")
  case True
  assume "bounds_ok g"
  then show ?thesis using addPoint_bounds_empty[OF True] by (simp add: bounds_ok_def)
next
  case False
  show ?thesis
    using addPoint_bounds_nonempty[OF False] clamped_extremes[OF False]
    by (simp add: bounds_ok_def)
qed

lemma addPoints_bounds_ok: "bounds_ok g \<Longrightarrow> bounds_ok (addPoints evs g)"
  by (induction evs g rule: addPoints.induct) (auto intro: addPoint_bounds_ok)

text \<open>
  C6. Whatever values are inserted, the axis bounds of a graph stay within 40 and 220. When
  the buffer is not empty after an insert, the lower bound is the minimum of the clamped
  values minus 10 and the upper bound is their maximum plus 10, each clamped to the range
  again. A value of 9999 gives the upper bound 220 and a value of -50 gives the lower bound
  40.
\<close>

theorem addPoint_axis_bounds:
  "40 \<le> minBpm (addPoints evs (new_PulseGraph d))
   \<and> minBpm (addPoints evs (new_PulseGraph d)) \<le> 220
   \<and> 40 \<le> maxBpm (addPoints evs (new_PulseGraph d))
   \<and> maxBpm (addPoints evs (new_PulseGraph d)) \<le> 220
   \<and> (points (addPoint now b ts g) \<noteq> [] \<longrightarrow>
        minBpm (addPoint now b ts g) =
          clamp_bpm (Min (set (map (\<lambda>p. clamp_bpm (bpm p)) (points (addPoint now b ts g)))) - 10)
        \<and> maxBpm (addPoint now b ts g) =
          clamp_bpm (Max (set (map (\<lambda>p. clamp_bpm (bpm p)) (points (addPoint now b ts g)))) + 10))
   \<and> maxBpm (addPoint now 9999 None (new_PulseGraph 60)) = 220
   \<and> minBpm (addPoint now 9999 None (new_PulseGraph 60)) = 210
   \<and> minBpm (addPoint now (- 50) None (new_PulseGraph 60)) = 40
   \<and> maxBpm (addPoint now (- 50) None (new_PulseGraph 60)) = 50"
proof -
  have "bounds_ok (addPoints evs (new_PulseGraph d))"
    by (rule addPoints_bounds_ok) (simp add: bounds_ok_def new_PulseGraph_def)
  then have inv: "40 \<le> minBpm (addPoints evs (new_PulseGraph d))"
    "minBpm (addPoints evs (new_PulseGraph d)) \<le> 220"
    "40 \<le> maxBpm (addPoints evs (new_PulseGraph d))"
    "maxBpm (addPoints evs (new_PulseGraph d)) \<le> 220"
    by (simp_all add: bounds_ok_def)
  have formula: "points (addPoint now b ts g) \<noteq> [] \<longrightarrow>
        minBpm (addPoint now b ts g) =
          clamp_bpm (Min (set (map (\<lambda>p. clamp_bpm (bpm p)) (points (addPoint now b ts g)))) - 10)
        \<and> maxBpm (addPoint now b ts g) =
          clamp_bpm (Max (set (map (\<lambda>p. clamp_bpm (bpm p)) (points (addPoint now b ts g)))) + 10)"
  proof
    assume ne: "points (addPoint now b ts g) \<noteq> []"
    show "minBpm (addPoint now b ts g) =
          clamp_bpm (Min (set (map (\<lambda>p. clamp_bpm (bpm p)) (points (addPoint now b ts g)))) - 10)
        \<and> maxBpm (addPoint now b ts g) =
          clamp_bpm (Max (set (map (\<lambda>p. clamp_bpm (bpm p)) (points (addPoint now b ts g)))) + 10)"
      using addPoint_bounds_nonempty[OF ne] clamped_extremes[OF ne]
      by (simp add: clamp_bpm_def[of "_ - 10"] clamp_bpm_def[of "_ + 10"])
  qed
  have ex: "maxBpm (addPoint now 9999 None (new_PulseGraph 60)) = 220"
    "minBpm (addPoint now 9999 None (new_PulseGraph 60)) = 210"
    "minBpm (addPoint now (- 50) None (new_PulseGraph 60)) = 40"
    "maxBpm (addPoint now (- 50) None (new_PulseGraph 60)) = 50"
    by (simp_all add: addPoint_def new_PulseGraph_def)
  show ?thesis using inv formula ex by blast
qed

theorem addPoint_axis_bounds_witness:
  "points (addPoint 5000 9999 (Some 4000) (addPoint 3000 (- 50) None (new_PulseGraph 60))) \<noteq> []
   \<and> minBpm (addPoints [(3000, - 50, None), (5000, 9999, Some 4000)] (new_PulseGraph 60)) = 40
   \<and> maxBpm (addPoints [(3000, - 50, None), (5000, 9999, Some 4000)] (new_PulseGraph 60)) = 220
   \<and> clamp_bpm (Min (set (map (\<lambda>p. clamp_bpm (bpm p))
        (points (addPoint 5000 9999 (Some 4000) (addPoint 3000 (- 50) None (new_PulseGraph 60)))))) - 10) = 40"
  using addPoint_axis_bounds
          [of "[(3000, - 50, None), (5000, 9999, Some 4000)]" 60 5000 9999 "Some 4000"
              "addPoint 3000 (- 50) None (new_PulseGraph 60)"]
  by (simp add: addPoint_points addPoint_duration new_PulseGraph_def clamp_bpm_def)

section \<open>The value display\<close>

lemma updateDisplay_text:
  "container ov \<Longrightarrow> bpmValue (updateDisplay ov) =
     (case ov_currentBpm ov of None \<Rightarrow> Placeholder
      | Some b \<Rightarrow> if ov_connectionState ov = ''connected'' then Shown b else Placeholder)"
  by (simp add: updateDisplay_def Let_def split: option.split bool.split)

lemma updateDisplay_frame:
  "container (updateDisplay ov) = container ov"
  "ov_connectionState (updateDisplay ov) = ov_connectionState ov"
  "ov_currentBpm (updateDisplay ov) = ov_currentBpm ov"
  "graph (updateDisplay ov) = graph ov"
  by (simp_all add: updateDisplay_def Let_def split: option.split bool.split)

lemma onHeartRate_fields:
  "bpmValue (onHeartRate now b ts ov) = bpmValue (updateDisplay (ov\<lparr>ov_currentBpm := Some b\<rparr>))"
  "container (onHeartRate now b ts ov) = container ov"
  "ov_connectionState (onHeartRate now b ts ov) = ov_connectionState ov"
  "ov_currentBpm (onHeartRate now b ts ov) = Some b"
  by (simp_all add: onHeartRate_def Let_def updateDisplay_frame split: option.split)

lemma overlay_step_ok: "container ov \<Longrightarrow> placeholder_ok (overlay_step e ov)"
  by (cases e)
     (simp_all add: placeholder_ok_def onStateChange_def onHeartRate_fields updateDisplay_frame
        updateDisplay_text split: option.split)

lemma overlay_run_ok: "placeholder_ok ov \<Longrightarrow> placeholder_ok (overlay_run evs ov)"
proof (induction evs arbitrary: ov)
  case Nil
  then show ?case by simp
next
  case (Cons e evs)
  have "placeholder_ok (overlay_step e ov)"
    using Cons.prems by (intro overlay_step_ok) (simp add: placeholder_ok_def)
  then show ?case using Cons.IH by simp
qed

lemma createOverlay_ok: "placeholder_ok (createOverlay m d ov)"
  by (simp add: placeholder_ok_def createOverlay_def)

text \<open>
  C7. Whenever the phase known to a mounted overlay is not connected, its value element shows
  the placeholder, whatever value is cached: this holds after every update of the display and
  after every sequence of status and sample events since the overlay was created. A sample
  that arrives while the phase is connected is displayed; the same sample arriving while the
  phase is disconnected is cached and the placeholder stays.
\<close>

theorem updateDisplay_placeholder:
  "(container ov \<and> ov_connectionState ov \<noteq> ''connected'' \<longrightarrow>
        bpmValue (updateDisplay ov) = Placeholder)
   \<and> (ov_connectionState (overlay_run evs (createOverlay m d ov0)) \<noteq> ''connected'' \<longrightarrow>
        bpmValue (overlay_run evs (createOverlay m d ov0)) = Placeholder)
   \<and> (container ov \<and> ov_connectionState ov = ''connected'' \<longrightarrow>
        bpmValue (onHeartRate now b ts ov) = Shown b)
   \<and> (container ov \<and> ov_connectionState ov = ''disconnected'' \<longrightarrow>
        bpmValue (onHeartRate now b ts ov) = Placeholder
        \<and> ov_currentBpm (onHeartRate now b ts ov) = Some b)"
proof (intro conjI impI)
  assume "container ov \<and> ov_connectionState ov \<noteq> ''connected''"
  then show "bpmValue (updateDisplay ov) = Placeholder"
    by (simp add: updateDisplay_text split: option.split)
next
  assume "ov_connectionState (overlay_run evs (createOverlay m d ov0)) \<noteq> ''connected''"
  then show "bpmValue (overlay_run evs (createOverlay m d ov0)) = Placeholder"
    using overlay_run_ok[OF createOverlay_ok, of evs m d ov0] by (simp add: placeholder_ok_def)
next
  assume "container ov \<and> ov_connectionState ov = ''connected''"
  then show "bpmValue (onHeartRate now b ts ov) = Shown b"
    by (simp add: onHeartRate_fields updateDisplay_text)
next
  assume "container ov \<and> ov_connectionState ov = ''disconnected''"
  then show "bpmValue (onHeartRate now b ts ov) = Placeholder"
    by (simp add: onHeartRate_fields updateDisplay_text)
  show "ov_currentBpm (onHeartRate now b ts ov) = Some b"
    by (simp add: onHeartRate_fields)
qed

theorem updateDisplay_placeholder_witness:
  "bpmValue (overlay_run [StateChange ''connected'', HeartRate 1000 72 (Some 1000)]
      (createOverlay ''graph'' 60 new_PulseOverlay)) = Shown 72
   \<and> bpmValue (overlay_run
        [StateChange ''connected'', HeartRate 1000 72 (Some 1000), StateChange ''disconnected'']
        (createOverlay ''graph'' 60 new_PulseOverlay)) = Placeholder
   \<and> ov_currentBpm (overlay_run
        [StateChange ''connected'', HeartRate 1000 72 (Some 1000), StateChange ''disconnected'']
        (createOverlay ''graph'' 60 new_PulseOverlay)) = Some 72
   \<and> bpmValue (overlay_run [HeartRate 1000 72 (Some 1000)]
      (createOverlay ''graph'' 60 new_PulseOverlay)) = Placeholder"
  using updateDisplay_placeholder
     [of "onStateChange ''connected'' (createOverlay ''graph'' 60 new_PulseOverlay)"
         "[StateChange ''connected'', HeartRate 1000 72 (Some 1000), StateChange ''disconnected'']"
         "''graph''" 60 new_PulseOverlay 1000 72 "Some 1000"]
    updateDisplay_placeholder
     [of "createOverlay ''graph'' 60 new_PulseOverlay"
         "[]" "''graph''" 60 new_PulseOverlay 1000 72 "Some 1000"]
  by (simp add: onStateChange_def updateDisplay_frame onHeartRate_fields createOverlay_def
        new_PulseOverlay_def)


section \<open>The connection manager\<close>

lemmas manager_defs =
  init_def connect_def disconnect_def shouldBeConnected_def setConnectionState_def emit_def
  onopen_def onclose_def onmessage_def onerror_def readyState_of_def storage_set_def
  scheduleReconnect_def handleSettingsChange_def close_socket_def field_def get_prop_def
  throws_on_access_def RECONNECT_MAX_DELAY_def RECONNECT_TIMEOUT_def Let_def

lemma timeouts_append: "timeouts (xs @ ys) = timeouts xs @ timeouts ys"
  by (induction xs rule: timeouts.induct) simp_all

subsection \<open>Reading the store\<close>

text \<open>
  C8. A read of the shared state store returns the last written value of every field. The
  code does not: after the sample with a value of 0 has been handled, the store holds 0 under
  the key of the value and the variable of the manager holds 0, but the record returned by
  the read has no value.
\<close>

theorem getState_zero_bpm:
  "currentBpm (run (connected_run @
        [(5, WsMessage 0 (Some (JObj [(''bpm'', JNum 0), (''timestamp'', JNum 5)])))]) init)
     = JNum 0
   \<and> local_store (run (connected_run @
        [(5, WsMessage 0 (Some (JObj [(''bpm'', JNum 0), (''timestamp'', JNum 5)])))]) init)
        ''currentBpm''
     = Some (JNum 0)
   \<and> get_prop (getState (local_store (run (connected_run @
        [(5, WsMessage 0 (Some (JObj [(''bpm'', JNum 0), (''timestamp'', JNum 5)])))]) init)))
        ''currentBpm''
     = JNull"
  by (simp add: manager_defs connected_run_def localhost_def getState_def storage_get_def
        List.map_filter_def js_or_def)

subsection \<open>One connection at a time\<close>

lemma connect_guard:
  "isConnecting s \<Longrightarrow> connect s = s"
  "ws s = Some k \<Longrightarrow> readyState_of s k = OPEN \<or> readyState_of s k = CONNECTING \<Longrightarrow> connect s = s"
  by (auto simp: connect_def)

text \<open>
  C1. The manager never has more than one connection that is open or under way. The code
  does not keep this. When a reconnect message is handled while the first \<^verbatim>\<open>connect()\<close> is
  suspended, \<^verbatim>\<open>disconnect()\<close> clears the flag, the second call passes the guard, two calls
  are under way, both create a socket and both sockets open. And after a manual reconnect
  while connected, the close event of the old socket can arrive when the new socket exists:
  its handler sets \<^verbatim>\<open>ws\<close> to null, and the connect call of the timeout it arms passes the
  guard and opens a second socket beside the new one.
\<close>

theorem connect_duplicate_sockets:
  "pending_connects (run (take 2 woken_by_reconnect_run) init) = 2
   \<and> sockets (run woken_by_reconnect_run init) = [OPEN, OPEN]
   \<and> live_sockets (run woken_by_reconnect_run init) = 2
   \<and> ws (run woken_by_reconnect_run init) = Some 1
   \<and> sockets (run late_close_run init) = [CLOSED, OPEN, OPEN]
   \<and> live_sockets (run late_close_run init) = 2"
  by (simp add: manager_defs woken_by_reconnect_run_def late_close_run_def connected_run_def
        localhost_def live_sockets_def pending_connects_def)

subsection \<open>Malformed messages\<close>

text \<open>
  C9, as stated, fails: a message that is valid JSON and has neither a value nor a status is
  dropped without a log entry. The handler returns the state of the open connection
  unchanged, and no warning is among the effects.
\<close>

theorem onmessage_unlogged:
  "malformed (Some (JObj [(''heartbeat'', JNum 1)]))
   \<and> readyState_of (run connected_run init) 0 = OPEN
   \<and> step (5, WsMessage 0 (Some (JObj [(''heartbeat'', JNum 1)]))) (run connected_run init)
       = run connected_run init
   \<and> ConsoleWarn \<notin> set (out (step (5, WsMessage 0 (Some (JObj [(''heartbeat'', JNum 1)])))
                                (run connected_run init)))"
  by (simp add: manager_defs localhost_def connected_run_def malformed_def)

text \<open>
  C9, amended. A message that is not valid JSON is dropped with a warning, and so is the JSON
  value null, on which the property access throws inside the handler. Every other message
  without a value and a status is dropped without a log entry. In all these cases the handler
  returns normally, and the phase, the cached value, the store, the sockets and the suspended
  tasks are unchanged: no sample is broadcast and the connection stays open.
\<close>

theorem onmessage_malformed:
  "malformed parsed \<longrightarrow>
     onmessage parsed s =
       (if parsed = None \<or> parsed = Some JNull \<or> parsed = Some JUndefined
        then emit ConsoleWarn s else s)
     \<and> connectionState (step (now, WsMessage k parsed) s) = connectionState s
     \<and> currentBpm (step (now, WsMessage k parsed) s) = currentBpm s
     \<and> local_store (step (now, WsMessage k parsed) s) = local_store s
     \<and> ws (step (now, WsMessage k parsed) s) = ws s
     \<and> sockets (step (now, WsMessage k parsed) s) = sockets s
     \<and> tasks (step (now, WsMessage k parsed) s) = tasks s
     \<and> (out (step (now, WsMessage k parsed) s) = out s
         \<or> out (step (now, WsMessage k parsed) s) = out s @ [ConsoleWarn])"
proof
  assume m: "malformed parsed"
  have eq: "onmessage parsed s =
       (if parsed = None \<or> parsed = Some JNull \<or> parsed = Some JUndefined
        then emit ConsoleWarn s else s)"
    using m
    by (auto simp: malformed_def onmessage_def throws_on_access_def field_def split: option.splits)
  show "onmessage parsed s =
       (if parsed = None \<or> parsed = Some JNull \<or> parsed = Some JUndefined
        then emit ConsoleWarn s else s)
     \<and> connectionState (step (now, WsMessage k parsed) s) = connectionState s
     \<and> currentBpm (step (now, WsMessage k parsed) s) = currentBpm s
     \<and> local_store (step (now, WsMessage k parsed) s) = local_store s
     \<and> ws (step (now, WsMessage k parsed) s) = ws s
     \<and> sockets (step (now, WsMessage k parsed) s) = sockets s
     \<and> tasks (step (now, WsMessage k parsed) s) = tasks s
     \<and> (out (step (now, WsMessage k parsed) s) = out s
         \<or> out (step (now, WsMessage k parsed) s) = out s @ [ConsoleWarn])"
    unfolding step.simps eq by (simp add: emit_def)
qed

theorem onmessage_malformed_witness:
  "malformed None
   \<and> step (5, WsMessage 0 None) (run connected_run init) = emit ConsoleWarn (run connected_run init)
   \<and> connectionState (step (5, WsMessage 0 None) (run connected_run init)) = JStr ''connected''
   \<and> sockets (step (5, WsMessage 0 None) (run connected_run init)) = [OPEN]"
  using onmessage_malformed [of None "run connected_run init" 5 0]
  by (simp add: malformed_def manager_defs connected_run_def localhost_def)

subsection \<open>Settings changes while connected\<close>

text \<open>
  C10. When the handler of a settings change finds the phase connected and the should-connect
  predicate true, it only broadcasts the settings-changed event: the socket, the backoff
  delay, the failure-episode clock, the auto-reconnect flag and the timeout are unchanged,
  whatever stream URL the new settings carry. The whole change, from the message to the end of
  the handler, adds this one effect to the state.
\<close>

theorem settings_change_while_connected:
  "connectionState s = JStr ''connected'' \<and> shouldBeConnected st \<longrightarrow>
     handleSettingsChange st s = emit (Broadcast [(''type'', JStr ''settingsChanged'')]) s
     \<and> step (t1, Resume (length (tasks s)) st ok) (step (t0, MsgSettingsChanged) s)
         = emit (Broadcast [(''type'', JStr ''settingsChanged'')]) s
     \<and> ws (handleSettingsChange st s) = ws s
     \<and> sockets (handleSettingsChange st s) = sockets s
     \<and> reconnectDelay (handleSettingsChange st s) = reconnectDelay s
     \<and> reconnectStartTime (handleSettingsChange st s) = reconnectStartTime s
     \<and> autoReconnectEnabled (handleSettingsChange st s) = autoReconnectEnabled s
     \<and> reconnectTimer (handleSettingsChange st s) = reconnectTimer s
     \<and> out (handleSettingsChange st s) = out s @ [Broadcast [(''type'', JStr ''settingsChanged'')]]"
  by (simp add: handleSettingsChange_def emit_def)

theorem settings_change_while_connected_witness:
  "connectionState (run connected_run init) = JStr ''connected''
   \<and> shouldBeConnected (localhost\<lparr>serverUrl := ''ws://example.org:9000''\<rparr>)
   \<and> run (connected_run @
           [(5, MsgSettingsChanged), (6, Resume 0 (localhost\<lparr>serverUrl := ''ws://example.org:9000''\<rparr>) True)])
        init
       = emit (Broadcast [(''type'', JStr ''settingsChanged'')]) (run connected_run init)
   \<and> sockets (handleSettingsChange (localhost\<lparr>serverUrl := ''ws://example.org:9000''\<rparr>)
        (run connected_run init)) = [OPEN]"
  using settings_change_while_connected
          [of "run connected_run init" "localhost\<lparr>serverUrl := ''ws://example.org:9000''\<rparr>" 6 True 5]
  by (simp add: manager_defs connected_run_def localhost_def)


subsection \<open>The backoff delay\<close>

lemma failed_cycle_step:
  assumes "retrying t0 s" "shouldBeConnected st" "snd tt - t0 \<le> 60000"
  shows "retrying t0 (failed_cycle st tt s)"
    and "reconnectDelay (failed_cycle st tt s) = min (reconnectDelay s * 2) 30000"
    and "timeouts (out (failed_cycle st tt s)) = timeouts (out s) @ [min (reconnectDelay s * 2) 30000]"
  using assms
  by (simp_all add: retrying_def failed_cycle_def connect_def setConnectionState_def emit_def
        onclose_def readyState_of_def scheduleReconnect_def RECONNECT_MAX_DELAY_def
        RECONNECT_TIMEOUT_def Let_def timeouts_append nth_append)

lemma backoff_delay_Suc: "backoff_delay (Suc n) = min (backoff_delay n * 2) 30000"
  by (simp add: backoff_delay_def min_def)

lemma failed_cycles_delays:
  assumes "retrying t0 s" "shouldBeConnected st" "\<forall>tt \<in> set tts. snd tt - t0 \<le> 60000"
    "reconnectDelay s = backoff_delay n"
  shows "retrying t0 (failed_cycles st tts s)
    \<and> reconnectDelay (failed_cycles st tts s) = backoff_delay (n + length tts)
    \<and> timeouts (out (failed_cycles st tts s)) =
        timeouts (out s) @ map backoff_delay [Suc n..<Suc (n + length tts)]"
  using assms
proof (induction tts arbitrary: s n)
  case Nil
  then show ?case by simp
next
  case (Cons tt tts)
  let ?s = "failed_cycle st tt s"
  have tt: "snd tt - t0 \<le> 60000" using Cons.prems(3) by simp
  have r: "retrying t0 ?s" by (rule failed_cycle_step(1)[OF Cons.prems(1,2) tt])
  have d: "reconnectDelay ?s = backoff_delay (Suc n)"
    using failed_cycle_step(2)[OF Cons.prems(1,2) tt] Cons.prems(4) by (simp add: backoff_delay_Suc)
  have o: "timeouts (out ?s) = timeouts (out s) @ [backoff_delay (Suc n)]"
    using failed_cycle_step(3)[OF Cons.prems(1,2) tt] Cons.prems(4) by (simp add: backoff_delay_Suc)
  have rest: "\<forall>tt \<in> set tts. snd tt - t0 \<le> 60000" using Cons.prems(3) by simp
  have ih: "retrying t0 (failed_cycles st tts ?s)
    \<and> reconnectDelay (failed_cycles st tts ?s) = backoff_delay (Suc n + length tts)
    \<and> timeouts (out (failed_cycles st tts ?s)) =
        timeouts (out ?s) @ map backoff_delay [Suc (Suc n)..<Suc (Suc n + length tts)]"
    by (rule Cons.IH[OF r Cons.prems(2) rest d])
  have u: "[Suc n..<Suc (n + length (tt # tts))] = Suc n # [Suc (Suc n)..<Suc (Suc n + length tts)]"
    by (subst upt_rec) simp
  have c1: "retrying t0 (failed_cycles st (tt # tts) s)" using ih by simp
  have c2: "reconnectDelay (failed_cycles st (tt # tts) s) = backoff_delay (n + length (tt # tts))"
    using ih by simp
  have c3: "timeouts (out (failed_cycles st (tt # tts) s)) =
      timeouts (out s) @ map backoff_delay [Suc n..<Suc (n + length (tt # tts))]"
    unfolding u using ih o by simp
  show ?case using c1 c2 c3 by blast
qed

lemma first_failure:
  assumes "ws s = Some k" "readyState_of s k = CONNECTING" "tasks s = []" "reconnectTimer s = None"
  shows "retrying tc (run [(topen, WsOpen k), (tc, WsClose k)] s)
    \<and> reconnectDelay (run [(topen, WsOpen k), (tc, WsClose k)] s) = 1000
    \<and> timeouts (out (run [(topen, WsOpen k), (tc, WsClose k)] s)) = timeouts (out s) @ [1000]"
  using assms
  by (simp add: retrying_def onopen_def setConnectionState_def emit_def
        onclose_def readyState_of_def scheduleReconnect_def RECONNECT_MAX_DELAY_def
        RECONNECT_TIMEOUT_def Let_def timeouts_append split: if_splits)

lemma backoff_list: "map backoff_delay [0..<7] = [1000, 2000, 4000, 8000, 16000, 30000, 30000]"
  by (simp add: backoff_delay_def upt_rec[of 0] upt_rec[of "Suc _"] upt_rec[of "numeral _"]
        numeral_eq_Suc)

lemma backoff_cap: "5 \<le> n \<Longrightarrow> backoff_delay n = 30000"
proof -
  assume "5 \<le> n"
  then have "(2::int) ^ 5 \<le> 2 ^ n" by (intro power_increasing) simp_all
  then show ?thesis by (simp add: backoff_delay_def)
qed

text \<open>
  The regular case: an episode that begins when a connection opens with no task suspended
  and no timeout pending, and then closes. The first failure arms 1000, and every further
  failed cycle within the window of the episode arms the doubled delay, capped at 30000. The
  delay is 1000 after every socket open and after every manual reconnect request.
\<close>

lemma clean_episode_delays:
  "(ws s = Some k \<and> readyState_of s k = CONNECTING \<and> tasks s = [] \<and> reconnectTimer s = None
      \<and> shouldBeConnected st \<and> (\<forall>tt \<in> set tts. snd tt - t0 \<le> 60000) \<longrightarrow>
      timeouts (out (failed_cycles st tts (run [(t, WsOpen k), (t0, WsClose k)] s)))
        = timeouts (out s) @ map backoff_delay [0..<Suc (length tts)]
      \<and> reconnectDelay (failed_cycles st tts (run [(t, WsOpen k), (t0, WsClose k)] s))
        = backoff_delay (length tts))
   \<and> map backoff_delay [0..<7] = [1000, 2000, 4000, 8000, 16000, 30000, 30000]
   \<and> (5 \<le> n \<longrightarrow> backoff_delay n = 30000)
   \<and> (readyState_of s k = CONNECTING \<longrightarrow> reconnectDelay (step (t, WsOpen k) s) = 1000)
   \<and> reconnectDelay (step (t, MsgReconnect) s) = 1000"
proof (intro conjI impI)
  assume a: "ws s = Some k \<and> readyState_of s k = CONNECTING \<and> tasks s = [] \<and> reconnectTimer s = None
      \<and> shouldBeConnected st \<and> (\<forall>tt \<in> set tts. snd tt - t0 \<le> 60000)"
  let ?s = "run [(t, WsOpen k), (t0, WsClose k)] s"
  have f: "retrying t0 ?s" "reconnectDelay ?s = backoff_delay 0"
    "timeouts (out ?s) = timeouts (out s) @ [1000]"
    using first_failure[where s = s and k = k and tc = t0 and topen = t] a
    by (simp_all add: backoff_delay_def)
  have c: "retrying t0 (failed_cycles st tts ?s)
    \<and> reconnectDelay (failed_cycles st tts ?s) = backoff_delay (0 + length tts)
    \<and> timeouts (out (failed_cycles st tts ?s)) =
        timeouts (out ?s) @ map backoff_delay [Suc 0..<Suc (0 + length tts)]"
    using a by (intro failed_cycles_delays f) simp_all
  have u: "[0..<Suc (length tts)] = 0 # [Suc 0..<Suc (length tts)]"
    by (subst upt_rec) simp
  show "timeouts (out (failed_cycles st tts ?s)) = timeouts (out s) @ map backoff_delay [0..<Suc (length tts)]"
    unfolding u using c f(3) by (simp add: backoff_delay_def)
  show "reconnectDelay (failed_cycles st tts ?s) = backoff_delay (length tts)"
    using c by simp
next
  show "map backoff_delay [0..<7] = [1000, 2000, 4000, 8000, 16000, 30000, 30000]"
    by (rule backoff_list)
next
  assume "5 \<le> n"
  then show "backoff_delay n = 30000" by (rule backoff_cap)
next
  assume "readyState_of s k = CONNECTING"
  then show "reconnectDelay (step (t, WsOpen k) s) = 1000"
    by (simp add: onopen_def setConnectionState_def emit_def Let_def)
next
  show "reconnectDelay (step (t, MsgReconnect) s) = 1000"
    by (simp add: connect_def)
qed

lemma clean_episode_delays_example:
  "ws (run (take 4 connected_run) init) = Some 0
   \<and> readyState_of (run (take 4 connected_run) init) 0 = CONNECTING
   \<and> shouldBeConnected localhost
   \<and> timeouts (out (failed_cycles localhost
        [(6000, 6100), (8100, 8200), (12200, 12300), (20300, 20400), (36400, 36500)]
        (run [(40, WsOpen 0), (5000, WsClose 0)] (run (take 4 connected_run) init))))
       = [1000, 2000, 4000, 8000, 16000, 30000]
   \<and> reconnectDelay (failed_cycles localhost
        [(6000, 6100), (8100, 8200), (12200, 12300), (20300, 20400), (36400, 36500)]
        (run [(40, WsOpen 0), (5000, WsClose 0)] (run (take 4 connected_run) init)))
       = 30000"
proof -
  have h: "ws (run (take 4 connected_run) init) = Some 0"
    "readyState_of (run (take 4 connected_run) init) 0 = CONNECTING"
    "tasks (run (take 4 connected_run) init) = []"
    "reconnectTimer (run (take 4 connected_run) init) = None"
    "timeouts (out (run (take 4 connected_run) init)) = []"
    "shouldBeConnected localhost"
    by (simp_all add: manager_defs connected_run_def localhost_def)
  show ?thesis
    using clean_episode_delays
            [of "run (take 4 connected_run) init" 0 localhost
                "[(6000, 6100), (8100, 8200), (12200, 12300), (20300, 20400), (36400, 36500)]"
                5000 40 5]
          h
    by (simp add: backoff_delay_def del: run.simps failed_cycles.simps)
qed

text \<open>
  C2. Every failure episode uses the delays 1000, 2000, 4000, ... and the delay is back at 1000
  after a successful open and after a manual reconnect. The code does not keep this. After a
  manual reconnect while connected, the close event of the old socket arms a timeout of 1000;
  the new socket opens and the delay is 1000, but the timeout is still pending. When it
  fires, its callback calls \<^verbatim>\<open>connect()\<close>, which returns at the guard, and doubles the delay:
  the manager is connected with a delay of 2000, and the next failure episode starts with a
  timeout of 2000.
\<close>

theorem stale_timeout_doubles_delay:
  "reconnectDelay (run reconnect_while_connected_run init) = 1000
   \<and> connectionState (run reconnect_while_connected_run init) = JStr ''connected''
   \<and> reconnectTimer (run reconnect_while_connected_run init) = Some 1000
   \<and> reconnectDelay (run (reconnect_while_connected_run @
        [(6001, TimerFires), (6002, Resume 0 localhost True)]) init) = 2000
   \<and> connectionState (run (reconnect_while_connected_run @
        [(6001, TimerFires), (6002, Resume 0 localhost True)]) init) = JStr ''connected''
   \<and> sockets (run (reconnect_while_connected_run @
        [(6001, TimerFires), (6002, Resume 0 localhost True)]) init) = [CLOSED, OPEN]
   \<and> reconnectStartTime (run (reconnect_while_connected_run @
        [(6001, TimerFires), (6002, Resume 0 localhost True)]) init) = None
   \<and> reconnectStartTime (run (reconnect_while_connected_run @
        [(6001, TimerFires), (6002, Resume 0 localhost True), (90000, WsClose 1)]) init)
       = Some 90000
   \<and> reconnectTimer (run (reconnect_while_connected_run @
        [(6001, TimerFires), (6002, Resume 0 localhost True), (90000, WsClose 1)]) init)
       = Some 2000
   \<and> timeouts (out (run (reconnect_while_connected_run @
        [(6001, TimerFires), (6002, Resume 0 localhost True), (90000, WsClose 1)]) init))
       = [1000, 2000]"
  by (simp add: manager_defs reconnect_while_connected_run_def connected_run_def localhost_def)

subsection \<open>The end of automatic reconnection\<close>


lemma set_remove_nth: "set (take i xs @ drop (Suc i) xs) \<subseteq> set xs"
  by (auto dest: in_set_takeD in_set_dropD)









end
